theory Spec2Isabelle
  imports Main "HOL-Library.Word"
begin

section \<open>Wire schema (src/main.go, lines 15-74)\<close>

text \<open>
  Each Go struct is a record with the fields in declaration order. Go strings are byte
  sequences, modelled as \<open>string\<close>; slices are lists; Go's \<open>int\<close> is a 64-bit word.
  Several structs share field names, so fields are written qualified
  (\<open>reqMessage.Content\<close>, \<open>resMessage.Content\<close>). The struct \<open>function\<close> is named
  \<open>function_t\<close> here.
\<close>

record reqMessage =
  Role :: string
  Content :: string

record words =
  Type :: string
  Description :: string

record properties =
  Words :: words

record parameters =
  Type :: string
  Properties :: properties

record function_t =
  Name :: string
  Description :: string
  Parameters :: parameters
  Required :: "string list"

record chatRequest =
  Model :: string
  Messages :: "reqMessage list"
  Functions :: "function_t list"
  Stream :: bool
  FunctionCall :: string

record arguments =
  Words :: "string list"

record functionCall =
  Name :: string
  Arguments :: arguments

record resMessage =
  Role :: string
  Content :: string
  FunctionCall :: functionCall

record choice =
  Index :: "64 word"
  Message :: resMessage
  FinishReason :: string

record chatResponse =
  Choices :: "choice list"

section \<open>The libraries the program calls\<close>

text \<open>A Go \<open>error\<close> value is represented by its message; \<open>nil\<close> is \<open>None\<close>.\<close>

datatype error = Error string

definition errors_New :: "string \<Rightarrow> error" where
  "errors_New msg = Error msg"

text \<open>
  The JSON value that \<open>json.Marshal\<close> walks out of a struct: one object member per
  field, keyed by the field's \<open>json:"..."\<close> tag, in declaration order.
\<close>

datatype json =
    JNull
  | JBool bool
  | JNumber int
  | JString string
  | JArray "json list"
  | JObject "(string \<times> json) list"

text \<open>
  An HTTP request as built by \<open>http.NewRequestWithContext\<close>: method, URL, header map
  (\<open>http.Header\<close> is a \<open>map[string][]string\<close>) and the bytes of the body reader.
\<close>

record httpRequest =
  Method :: string
  URL :: string
  Header :: "string \<rightharpoonup> string list"
  ReqBody :: string

text \<open>
  A response body is a stream; it is represented by the outcome of reading it to the
  end, which is what \<open>io.ReadAll\<close> returns.
\<close>

type_synonym body = "error + string"

record httpResponse =
  Status :: string
  StatusCode :: "64 word"
  ResBody :: body

text \<open>
  Everything outside the program: the process environment and the behaviour of the
  library calls that can fail. The results below hold for every such world.
  \<^item> \<open>environ\<close>: the environment variables;
  \<^item> \<open>json_encode\<close>: the text encoding of a JSON value done by \<open>json.Marshal\<close>;
  \<^item> \<open>http_NewRequest_check\<close>: the validation of method and URL done by
    \<open>http.NewRequestWithContext\<close>;
  \<^item> \<open>client_Do\<close>: the result of one call of \<open>client.Do\<close>, that is, the error or the
    last response it received;
  \<^item> \<open>redirects\<close>: the further requests that this call of \<open>client.Do\<close> sends by itself.
    The program uses the zero-value \<open>http.Client\<close> (main.go, line 110), which follows
    redirect responses: after the request it was given it sends one request for every
    redirect it follows, with method, URL, header and body chosen by \<open>net/http\<close>. The
    list is empty when the first response is not a redirect;
  \<^item> \<open>json_Unmarshal\<close>: \<open>json.Unmarshal\<close> into a fresh \<open>chatResponse\<close>;
  \<^item> \<open>json_Decode\<close>: \<open>json.NewDecoder(body).Decode\<close> into a fresh \<open>chatResponse\<close>.
\<close>

record world =
  environ :: "string \<rightharpoonup> string"
  json_encode :: "json \<Rightarrow> error + string"
  http_NewRequest_check :: "string \<Rightarrow> string \<Rightarrow> error option"
  client_Do :: "httpRequest \<Rightarrow> error + httpResponse"
  redirects :: "httpRequest \<Rightarrow> httpRequest list"
  json_Unmarshal :: "string \<Rightarrow> error + chatResponse"
  json_Decode :: "body \<Rightarrow> error + chatResponse"

text \<open>\<open>os.Getenv\<close> returns the empty string for a variable that is not set.\<close>

definition os_Getenv :: "world \<Rightarrow> string \<Rightarrow> string" where
  "os_Getenv w key = (case environ w key of None \<Rightarrow> '''' | Some v \<Rightarrow> v)"

definition words_json :: "words \<Rightarrow> json" where
  "words_json x =
     JObject [(''type'', JString (words.Type x)),
              (''description'', JString (words.Description x))]"

definition properties_json :: "properties \<Rightarrow> json" where
  "properties_json x = JObject [(''words'', words_json (properties.Words x))]"

definition parameters_json :: "parameters \<Rightarrow> json" where
  "parameters_json x =
     JObject [(''type'', JString (parameters.Type x)),
              (''properties'', properties_json (parameters.Properties x))]"

text \<open>
  A slice is encoded as an array. (A nil slice would be encoded as \<open>null\<close>; lists do not
  tell nil from empty, and \<open>createChatRequest\<close> builds no empty slice.)
\<close>

definition function_json :: "function_t \<Rightarrow> json" where
  "function_json x =
     JObject [(''name'', JString (function_t.Name x)),
              (''description'', JString (function_t.Description x)),
              (''parameters'', parameters_json (function_t.Parameters x)),
              (''required'', JArray (map JString (function_t.Required x)))]"

definition reqMessage_json :: "reqMessage \<Rightarrow> json" where
  "reqMessage_json x =
     JObject [(''role'', JString (reqMessage.Role x)),
              (''content'', JString (reqMessage.Content x))]"

definition chatRequest_json :: "chatRequest \<Rightarrow> json" where
  "chatRequest_json x =
     JObject [(''model'', JString (chatRequest.Model x)),
              (''messages'', JArray (map reqMessage_json (chatRequest.Messages x))),
              (''functions'', JArray (map function_json (chatRequest.Functions x))),
              (''stream'', JBool (chatRequest.Stream x)),
              (''function_call'', JString (chatRequest.FunctionCall x))]"

definition json_Marshal :: "world \<Rightarrow> chatRequest \<Rightarrow> error + string" where
  "json_Marshal w x = json_encode w (chatRequest_json x)"

definition http_NewRequestWithContext ::
    "world \<Rightarrow> string \<Rightarrow> string \<Rightarrow> string \<Rightarrow> error + httpRequest" where
  "http_NewRequestWithContext w method url reqBody =
     (case http_NewRequest_check w method url of
        Some err \<Rightarrow> Inl err
      | None \<Rightarrow> Inr \<lparr>Method = method, URL = url, Header = Map.empty, ReqBody = reqBody\<rparr>)"

text \<open>
  \<open>req.Header.Set(key, value)\<close> replaces the values stored under the key by the single
  value. The keys the program uses are already in canonical MIME form.
\<close>

definition Header_Set :: "httpRequest \<Rightarrow> string \<Rightarrow> string \<Rightarrow> httpRequest" where
  "Header_Set req key v = req\<lparr>Header := (Header req)(key \<mapsto> [v])\<rparr>"

definition io_ReadAll :: "body \<Rightarrow> error + string" where
  "io_ReadAll b = b"

definition http_StatusOK :: "64 word" where
  "http_StatusOK = 200"

section \<open>Observable events\<close>

text \<open>
  The calls the program makes to the outside, in order. A log call is recorded with its
  format string and arguments; \<open>LogFatalf\<close> and \<open>LogFatal\<close> end the process with
  exit status 1.
\<close>

datatype arg = ArgErr error | ArgInt "64 word" | ArgStr string

datatype event =
    Println string
  | LogPrintf string "arg list"
  | LogFatalf string "arg list"
  | LogFatal string
  | Call_json_Marshal json
  | Call_http_NewRequest string string string
  | Call_os_Getenv string
  | Call_client_Do httpRequest
  | Call_io_ReadAll
  | Call_json_Unmarshal string
  | Call_json_Decode
  | Call_Body_Close

fun is_client_Do :: "event \<Rightarrow> bool" where
  "is_client_Do (Call_client_Do _) = True"
| "is_client_Do _ = False"

fun is_log :: "event \<Rightarrow> bool" where
  "is_log (LogPrintf _ _) = True"
| "is_log (LogFatalf _ _) = True"
| "is_log (LogFatal _) = True"
| "is_log _ = False"

text \<open>
  The HTTP requests that leave the process: a call of \<open>client.Do\<close> sends the request
  it is given and then the requests of the redirects it follows. No other event sends
  a request.
\<close>

fun wire_requests :: "world \<Rightarrow> event \<Rightarrow> httpRequest list" where
  "wire_requests w (Call_client_Do req) = req # redirects w req"
| "wire_requests w _ = []"

definition outbound_requests :: "world \<Rightarrow> event list \<Rightarrow> httpRequest list" where
  "outbound_requests w t = concat (map (wire_requests w) t)"

section \<open>The program (src/main.go)\<close>

definition API_URL :: string where
  "API_URL = ''https://api.llama-api.com/chat/completions''"

definition createChatRequest :: "string \<Rightarrow> chatRequest" where
  "createChatRequest prompt =
     \<lparr>chatRequest.Model = ''llama3-70b'',
      chatRequest.Messages =
        [\<lparr>reqMessage.Role = ''user'', reqMessage.Content = prompt\<rparr>],
      chatRequest.Functions =
        [\<lparr>function_t.Name = ''Get_English_Exmple_Sentence'',
          function_t.Description =
            ''Get the English example sentence generated with given words.'',
          function_t.Parameters =
            \<lparr>parameters.Type = ''object'',
             parameters.Properties =
               \<lparr>properties.Words =
                  \<lparr>words.Type = ''string'',
                   words.Description =
                     ''English vocabulary list, e.g. nonchalant, reckon, appalled''\<rparr>\<rparr>\<rparr>,
          function_t.Required = [''words'']\<rparr>],
      chatRequest.Stream = False,
      chatRequest.FunctionCall = ''none''\<rparr>"

text \<open>
  \<open>getGeneratedResponse\<close> returns the Go pair \<open>(string, error)\<close> together with the
  events it caused. The deferred \<open>res.Body.Close()\<close> is registered at line 125 and so
  runs on the return paths after it.
\<close>

definition getGeneratedResponse ::
    "world \<Rightarrow> string \<Rightarrow> (string \<times> error option) \<times> event list" where
  "getGeneratedResponse w prompt =
    (let chatReq = createChatRequest prompt;
         t1 = [Call_json_Marshal (chatRequest_json chatReq)]
     in case json_Marshal w chatReq of
       Inl err \<Rightarrow>
         (('''', Some err), t1 @ [LogPrintf ''Failed to Marshal: %v'' [ArgErr err]])
     | Inr jsonData \<Rightarrow>
    (let t2 = t1 @ [Call_http_NewRequest ''POST'' API_URL jsonData]
     in case http_NewRequestWithContext w ''POST'' API_URL jsonData of
       Inl err \<Rightarrow>
         (('''', Some err),
          t2 @ [LogPrintf ''Failed to create http request struct: %v'' [ArgErr err]])
     | Inr req \<Rightarrow>
    (let apiKey = os_Getenv w ''LLAMA_API_KEY'';
         t3 = t2 @ [Call_os_Getenv ''LLAMA_API_KEY'']
     in if apiKey = '''' then
         (let err = errors_New ''LLAMA_API_KEY environment variable is not set''
          in (('''', Some err), t3 @ [LogPrintf ''Failed to get API KEY: %v'' [ArgErr err]]))
       else
    (let req1 = Header_Set req ''Content-Type'' ''application/json'';
         req2 = Header_Set req1 ''Authorization'' (''Bearer '' @ apiKey);
         t4 = t3 @ [Call_client_Do req2]
     in case client_Do w req2 of
       Inl err \<Rightarrow>
         (('''', Some err), t4 @ [LogPrintf ''Failed to get http response: %v'' [ArgErr err]])
     | Inr res \<Rightarrow>
       if StatusCode res \<noteq> http_StatusOK then
         (let err = errors_New ''Unexpected status code''
          in (('''', Some err),
              t4 @ [LogPrintf ''Failed to get expected status code: %v :%d''
                      [ArgErr err, ArgInt (StatusCode res)]]))
       else
    (let t5 = t4 @ [Call_io_ReadAll]
     in case io_ReadAll (ResBody res) of
       Inl err \<Rightarrow>
         (('''', Some err),
          t5 @ [LogPrintf ''Failed to read body: %v'' [ArgErr err], Call_Body_Close])
     | Inr bodyBytes \<Rightarrow>
    (let t6 = t5 @ [Call_json_Unmarshal bodyBytes]
     in case json_Unmarshal w bodyBytes of
       Inl err \<Rightarrow>
         (('''', Some err),
          t6 @ [LogPrintf ''Failed to unmarshal: %v'' [ArgErr err], Call_Body_Close])
     | Inr chatRes \<Rightarrow>
       if length (Choices chatRes) = 0 then
         (let err = errors_New ''No choices returned from llama''
          in (('''', Some err),
              t6 @ [LogPrintf ''Failed to get expected length of choices: %v'' [ArgErr err],
                    Call_Body_Close]))
       else
         ((resMessage.Content (Message (Choices chatRes ! 0)), None),
          t6 @ [Call_Body_Close])))))))"

text \<open>
  \<open>main\<close> returns the events of the whole run and the exit status of the process.
  \<open>fmt.Sprintf\<close> with three \<open>%s\<close> verbs and string arguments splices the arguments
  into the format.
\<close>

definition main_words :: "string list" where
  "main_words = [''nonchalant'', ''reckon'', ''appalled'']"

definition main_prompt :: string where
  "main_prompt =
     ''Please create an English example sentence using following words: ''
       @ main_words ! 0 @ '', '' @ main_words ! 1 @ '', '' @ main_words ! 2"

definition main :: "world \<Rightarrow> event list \<times> nat" where
  "main w =
    (let prompt = main_prompt;
         t0 = [Println '''', Println '''',
               Println ''++++++ Prompt ++++++'', Println prompt,
               Println '''', Println '''',
               Println ''++++++ Generated response ++++++''];
         ((response, err), t) = getGeneratedResponse w prompt
     in case err of
          Some e \<Rightarrow>
            (t0 @ t @ [LogFatalf ''Failed to get generated response from Llama API: %v''
                         [ArgErr e]], 1)
        | None \<Rightarrow>
            (t0 @ t @ [Println response, Println '''', Println ''''], 0))"

section \<open>The second variant (src/unnamed/part_001)\<close>

text \<open>
  The struct declarations and \<open>API_URL\<close> of this file are the same as in src/main.go.
  Here \<open>getGeneratedResponse\<close> returns a string only and ends the process through
  \<open>log.Fatalf\<close> or \<open>log.Fatal\<close> on every failure; the process exit skips the deferred
  \<open>res.Body.Close()\<close>. The body is decoded from the stream by
  \<open>json.NewDecoder(res.Body).Decode\<close>.
\<close>

datatype 'a outcome = Return 'a | Exit nat

definition createChatRequest_part_001 :: "string \<Rightarrow> chatRequest" where
  "createChatRequest_part_001 prompt =
     \<lparr>chatRequest.Model = ''llama3-70b'',
      chatRequest.Messages =
        [\<lparr>reqMessage.Role = ''user'', reqMessage.Content = prompt\<rparr>],
      chatRequest.Functions =
        [\<lparr>function_t.Name = ''Get_English_Exmple_Sentence'',
          function_t.Description =
            ''Get the English example sentence generated with given words.'',
          function_t.Parameters =
            \<lparr>parameters.Type = ''object'',
             parameters.Properties =
               \<lparr>properties.Words =
                  \<lparr>words.Type = ''string'',
                   words.Description =
                     ''English vocabulary list, e.g. nonchalant, reckon, appalled''\<rparr>\<rparr>\<rparr>,
          function_t.Required = [''words'']\<rparr>],
      chatRequest.Stream = False,
      chatRequest.FunctionCall = ''none''\<rparr>"

definition getGeneratedResponse_part_001 ::
    "world \<Rightarrow> string \<Rightarrow> string outcome \<times> event list" where
  "getGeneratedResponse_part_001 w prompt =
    (let chatReq = createChatRequest_part_001 prompt;
         t1 = [Call_json_Marshal (chatRequest_json chatReq)]
     in case json_Marshal w chatReq of
       Inl err \<Rightarrow>
         (Exit 1, t1 @ [LogFatalf ''Failed to marshal json: %v'' [ArgErr err]])
     | Inr jsonData \<Rightarrow>
    (let t2 = t1 @ [Call_http_NewRequest ''POST'' API_URL jsonData]
     in case http_NewRequestWithContext w ''POST'' API_URL jsonData of
       Inl err \<Rightarrow>
         (Exit 1,
          t2 @ [LogFatalf ''Failed to create http request struct: %v'' [ArgErr err]])
     | Inr req \<Rightarrow>
    (let apiKey = os_Getenv w ''LLAMA_API_KEY'';
         t3 = t2 @ [Call_os_Getenv ''LLAMA_API_KEY'']
     in if apiKey = '''' then
         (Exit 1, t3 @ [LogFatal ''LLAMA_API_KEY environment variable is not set''])
       else
    (let req1 = Header_Set req ''Content-Type'' ''application/json'';
         req2 = Header_Set req1 ''Authorization'' (''Bearer '' @ apiKey);
         t4 = t3 @ [Call_client_Do req2]
     in case client_Do w req2 of
       Inl err \<Rightarrow>
         (Exit 1, t4 @ [LogFatalf ''Failed to get http response: %v'' [ArgErr err]])
     | Inr res \<Rightarrow>
       if StatusCode res \<noteq> http_StatusOK then
         (Exit 1, t4 @ [LogFatalf ''Unexpected status code: %v'' [ArgStr (Status res)]])
       else
    (let t5 = t4 @ [Call_json_Decode]
     in case json_Decode w (ResBody res) of
       Inl err \<Rightarrow>
         (Exit 1, t5 @ [LogFatalf ''Failed to decode: %v'' [ArgErr err]])
     | Inr chatRes \<Rightarrow>
       if length (Choices chatRes) = 0 then
         (Exit 1, t5 @ [LogFatal ''No choices returned from llama''])
       else
         (Return (resMessage.Content (Message (Choices chatRes ! 0))),
          t5 @ [Call_Body_Close]))))))"

section \<open>Example worlds\<close>

text \<open>
  Concrete worlds on which the theorems below are instantiated: the key is set, every
  library call succeeds, the server answers with the given status code, and the body
  decodes to the given \<open>chatResponse\<close>.
\<close>

definition example_choice :: "64 word \<Rightarrow> string \<Rightarrow> choice" where
  "example_choice i txt =
     \<lparr>Index = i,
      Message = \<lparr>resMessage.Role = ''assistant'', resMessage.Content = txt,
                 resMessage.FunctionCall =
                   \<lparr>functionCall.Name = '''', Arguments = \<lparr>arguments.Words = []\<rparr>\<rparr>\<rparr>,
      FinishReason = ''stop''\<rparr>"

definition example_world :: "64 word \<Rightarrow> chatResponse \<Rightarrow> world" where
  "example_world code chatRes =
     \<lparr>environ = [''LLAMA_API_KEY'' \<mapsto> ''secret''],
      json_encode = (\<lambda>j. Inr ''request-json''),
      http_NewRequest_check = (\<lambda>method url. None),
      client_Do = (\<lambda>req. Inr \<lparr>Status = ''status-line'', StatusCode = code,
                                ResBody = Inr ''response-json''\<rparr>),
      redirects = (\<lambda>req. []),
      json_Unmarshal = (\<lambda>b. Inr chatRes),
      json_Decode = (\<lambda>b. Inr chatRes)\<rparr>"

definition example_request :: httpRequest where
  "example_request =
     \<lparr>Method = ''POST'', URL = API_URL,
      Header = [''Content-Type'' \<mapsto> [''application/json''],
                ''Authorization'' \<mapsto> [''Bearer secret'']],
      ReqBody = ''request-json''\<rparr>"

text \<open>The same world with the environment variable removed, or set to the empty string.\<close>

definition example_world_no_key :: world where
  "example_world_no_key = (example_world 200 \<lparr>Choices = []\<rparr>)\<lparr>environ := Map.empty\<rparr>"

definition example_world_empty_key :: world where
  "example_world_empty_key =
     (example_world 200 \<lparr>Choices = []\<rparr>)\<lparr>environ := [''LLAMA_API_KEY'' \<mapsto> '''']\<rparr>"

text \<open>A world without network: \<open>client.Do\<close> returns an error.\<close>

definition example_world_no_network :: world where
  "example_world_no_network =
     (example_world 200 \<lparr>Choices = []\<rparr>)
       \<lparr>client_Do := (\<lambda>req. Inl (Error ''dial tcp: timeout''))\<rparr>"

text \<open>
  A world whose server answers the POST to \<open>API_URL\<close> with \<open>307 Temporary Redirect\<close> and
  a \<open>Location\<close> on the same host, and the repeated request with status 200. For a 307
  \<open>net/http\<close> repeats the request with the same method and body; the host is the same,
  so the \<open>Authorization\<close> header is kept, and the URL of the first request is added
  as \<open>Referer\<close>. \<open>client.Do\<close> returns the final response.
\<close>

definition redirect_location :: string where
  "redirect_location = ''https://api.llama-api.com/v2/chat/completions''"

definition redirect_world :: world where
  "redirect_world =
     (example_world 200 \<lparr>Choices = [example_choice 0 ''Hello'']\<rparr>)
       \<lparr>redirects :=
          (\<lambda>req. [req\<lparr>URL := redirect_location,
                        Header := (Header req)(''Referer'' \<mapsto> [URL req])\<rparr>])\<rparr>"

text \<open>
  A world whose server answers with status 200 and a body that holds one JSON value
  followed by more text. \<open>json.Unmarshal\<close> rejects data after the top-level value; the
  stream decoder of \<open>json.NewDecoder\<close> decodes the first value and leaves the rest in
  the stream.
\<close>

definition trailing_body :: string where
  \<open>trailing_body =
     ''{"choices":[{"index":0,"message":{"role":"assistant","content":"Hello"},"finish_reason":"stop"}]} trailing''\<close>

definition trailing_data_world :: world where
  "trailing_data_world =
     (example_world 200 \<lparr>Choices = [example_choice 0 ''Hello'']\<rparr>)
       \<lparr>client_Do := (\<lambda>req. Inr \<lparr>Status = ''200 OK'', StatusCode = 200,
                                   ResBody = Inr trailing_body\<rparr>),
        json_Unmarshal := (\<lambda>b. Inl (Error ''invalid character 't' after top-level value''))\<rparr>"

section \<open>Unfolding rules\<close>

lemmas ggr_unfold = getGeneratedResponse_def Let_def json_Marshal_def
  http_NewRequestWithContext_def os_Getenv_def Header_Set_def http_StatusOK_def
  io_ReadAll_def errors_New_def

lemmas example_unfold = example_world_def example_request_def example_choice_def
  example_world_no_key_def example_world_empty_key_def API_URL_def
  example_world_no_network_def redirect_world_def redirect_location_def
  trailing_data_world_def

section \<open>Success path\<close>

text \<open>
  C1. Suppose serialization and request construction succeed, the API key is not
  empty, and \<open>client.Do\<close> answers the request built from them with a response of status
  code 200, whose body is read in full and decoded by \<open>json.Unmarshal\<close> into a
  \<open>chatResponse\<close> with at least one choice. Then \<open>getGeneratedResponse\<close> returns the
  message content of the first choice, unchanged, and a nil error, after exactly one
  call of each library function. The remaining choices \<open>cs\<close> are arbitrary and do not
  occur in the result.
\<close>

theorem C1_first_choice_content_returned:
  assumes "json_Marshal w (createChatRequest prompt) = Inr jsonData"
    and "http_NewRequestWithContext w ''POST'' API_URL jsonData = Inr req"
    and "os_Getenv w ''LLAMA_API_KEY'' = apiKey"
    and "apiKey \<noteq> ''''"
    and "client_Do w
           (Header_Set (Header_Set req ''Content-Type'' ''application/json'')
              ''Authorization'' (''Bearer '' @ apiKey)) = Inr res"
    and "StatusCode res = 200"
    and "io_ReadAll (ResBody res) = Inr bodyBytes"
    and "json_Unmarshal w bodyBytes = Inr chatRes"
    and "Choices chatRes = c # cs"
  shows "getGeneratedResponse w prompt =
     ((resMessage.Content (Message c), None),
      [Call_json_Marshal (chatRequest_json (createChatRequest prompt)),
       Call_http_NewRequest ''POST'' API_URL jsonData,
       Call_os_Getenv ''LLAMA_API_KEY'',
       Call_client_Do
         (Header_Set (Header_Set req ''Content-Type'' ''application/json'')
            ''Authorization'' (''Bearer '' @ apiKey)),
       Call_io_ReadAll,
       Call_json_Unmarshal bodyBytes,
       Call_Body_Close])"
  using assms unfolding getGeneratedResponse_def Let_def
  by (simp add: http_StatusOK_def)

theorem C1_first_choice_content_returned_witness:
  "getGeneratedResponse
     (example_world 200
        \<lparr>Choices = [example_choice 0 ''Hello'', example_choice 1 ''Bye'']\<rparr>) ''hi''
   = ((''Hello'', None),
      [Call_json_Marshal (chatRequest_json (createChatRequest ''hi'')),
       Call_http_NewRequest ''POST'' API_URL ''request-json'',
       Call_os_Getenv ''LLAMA_API_KEY'',
       Call_client_Do example_request,
       Call_io_ReadAll,
       Call_json_Unmarshal ''response-json'',
       Call_Body_Close])"
proof -
  let ?cr = "\<lparr>Choices = [example_choice 0 ''Hello'', example_choice 1 ''Bye'']\<rparr>"
  let ?w = "example_world 200 ?cr"
  let ?req = "\<lparr>Method = ''POST'', URL = API_URL, Header = Map.empty,
               ReqBody = ''request-json''\<rparr>"
  let ?res = "\<lparr>Status = ''status-line'', StatusCode = 200,
               ResBody = Inr ''response-json''\<rparr>"
  have marshalled: "json_Marshal ?w (createChatRequest ''hi'') = Inr ''request-json''"
    by (simp add: json_Marshal_def example_world_def)
  have built: "http_NewRequestWithContext ?w ''POST'' API_URL ''request-json'' = Inr ?req"
    by (simp add: http_NewRequestWithContext_def example_world_def)
  have key: "os_Getenv ?w ''LLAMA_API_KEY'' = ''secret''"
    by (simp add: os_Getenv_def example_world_def)
  have nonempty: "''secret'' \<noteq> ''''"
    by simp
  have answered: "client_Do ?w
       (Header_Set (Header_Set ?req ''Content-Type'' ''application/json'')
          ''Authorization'' (''Bearer '' @ ''secret'')) = Inr ?res"
    by (simp add: example_world_def)
  have ok: "StatusCode ?res = 200"
    by simp
  have read: "io_ReadAll (ResBody ?res) = Inr ''response-json''"
    by (simp add: io_ReadAll_def)
  have decoded: "json_Unmarshal ?w ''response-json'' = Inr ?cr"
    by (simp add: example_world_def)
  have choices: "Choices ?cr = example_choice 0 ''Hello'' # [example_choice 1 ''Bye'']"
    by simp
  from C1_first_choice_content_returned
         [OF marshalled built key nonempty answered ok read decoded choices]
  show ?thesis
    by (simp add: example_choice_def example_request_def Header_Set_def)
qed

section \<open>The request body\<close>

text \<open>
  C2. For the prompt that \<open>main\<close> builds, the JSON value of the request made by
  \<open>createChatRequest\<close> is the object with the members \<open>model\<close>, \<open>messages\<close>,
  \<open>functions\<close>, \<open>stream\<close> and \<open>function_call\<close>, in this order, where \<open>messages\<close> holds the
  prompt as the single user message and \<open>functions\<close> holds the one fixed declaration.
  This value is what \<open>json.Marshal\<close> encodes, and the call is the first thing
  \<open>getGeneratedResponse\<close> does.
\<close>

theorem C2_request_json_shape:
  "chatRequest_json (createChatRequest main_prompt) =
     JObject
      [(''model'', JString ''llama3-70b''),
       (''messages'',
          JArray [JObject
            [(''role'', JString ''user''),
             (''content'', JString
                ''Please create an English example sentence using following words: nonchalant, reckon, appalled'')]]),
       (''functions'',
          JArray [JObject
            [(''name'', JString ''Get_English_Exmple_Sentence''),
             (''description'', JString
                ''Get the English example sentence generated with given words.''),
             (''parameters'', JObject
                [(''type'', JString ''object''),
                 (''properties'', JObject
                    [(''words'', JObject
                       [(''type'', JString ''string''),
                        (''description'', JString
                           ''English vocabulary list, e.g. nonchalant, reckon, appalled'')])])]),
             (''required'', JArray [JString ''words''])]]),
       (''stream'', JBool False),
       (''function_call'', JString ''none'')]
   \<and> json_Marshal w (createChatRequest main_prompt)
       = json_encode w (chatRequest_json (createChatRequest main_prompt))
   \<and> hd (snd (getGeneratedResponse w main_prompt))
       = Call_json_Marshal (chatRequest_json (createChatRequest main_prompt))"
  by (simp add: chatRequest_json_def createChatRequest_def main_prompt_def main_words_def
      reqMessage_json_def function_json_def parameters_json_def properties_json_def
      words_json_def json_Marshal_def getGeneratedResponse_def Let_def split: sum.split)

section \<open>Failure paths\<close>

text \<open>
  C3. If \<open>LLAMA_API_KEY\<close> is unset or set to the empty string, \<open>getGeneratedResponse\<close>
  returns a non-nil error and no call of \<open>client.Do\<close> occurs among its events.
\<close>

theorem C3_missing_key_fails_before_network:
  assumes "environ w ''LLAMA_API_KEY'' = None \<or> environ w ''LLAMA_API_KEY'' = Some ''''"
  shows "snd (fst (getGeneratedResponse w prompt)) \<noteq> None
       \<and> (\<forall>e \<in> set (snd (getGeneratedResponse w prompt)). \<not> is_client_Do e)"
  using assms unfolding getGeneratedResponse_def Let_def os_Getenv_def
  by (auto split: sum.split)

theorem C3_missing_key_fails_before_network_witness:
  "environ example_world_no_key ''LLAMA_API_KEY'' = None
   \<and> getGeneratedResponse example_world_no_key ''hi'' =
       (('''', Some (Error ''LLAMA_API_KEY environment variable is not set'')),
        [Call_json_Marshal (chatRequest_json (createChatRequest ''hi'')),
         Call_http_NewRequest ''POST'' API_URL ''request-json'',
         Call_os_Getenv ''LLAMA_API_KEY'',
         LogPrintf ''Failed to get API KEY: %v''
           [ArgErr (Error ''LLAMA_API_KEY environment variable is not set'')]])
   \<and> snd (fst (getGeneratedResponse example_world_no_key ''hi'')) \<noteq> None
   \<and> filter is_client_Do (snd (getGeneratedResponse example_world_no_key ''hi'')) = []
   \<and> environ example_world_empty_key ''LLAMA_API_KEY'' = Some ''''
   \<and> snd (fst (getGeneratedResponse example_world_empty_key ''hi'')) \<noteq> None"
proof -
  have unset: "environ example_world_no_key ''LLAMA_API_KEY'' = None"
    by (simp add: example_unfold)
  have empty: "environ example_world_empty_key ''LLAMA_API_KEY'' = Some ''''"
    by (simp add: example_unfold)
  have run: "getGeneratedResponse example_world_no_key ''hi'' =
       (('''', Some (Error ''LLAMA_API_KEY environment variable is not set'')),
        [Call_json_Marshal (chatRequest_json (createChatRequest ''hi'')),
         Call_http_NewRequest ''POST'' API_URL ''request-json'',
         Call_os_Getenv ''LLAMA_API_KEY'',
         LogPrintf ''Failed to get API KEY: %v''
           [ArgErr (Error ''LLAMA_API_KEY environment variable is not set'')]])"
    by (simp add: ggr_unfold example_unfold)
  from C3_missing_key_fails_before_network [of example_world_no_key "''hi''"]
       C3_missing_key_fails_before_network [of example_world_empty_key "''hi''"]
       unset empty run
  show ?thesis unfolding filter_empty_conv by blast
qed

text \<open>
  C4. If the response to the request handed to \<open>client.Do\<close> has a status code other
  than 200, \<open>getGeneratedResponse\<close> returns a non-nil error, and its events contain no
  call of \<open>io.ReadAll\<close> and no call of \<open>json.Unmarshal\<close> (nor of the stream decoder).
\<close>

theorem C4_non_200_fails_without_reading_body:
  assumes "Call_client_Do req \<in> set (snd (getGeneratedResponse w prompt))"
    and "client_Do w req = Inr res"
    and "StatusCode res \<noteq> 200"
  shows "snd (fst (getGeneratedResponse w prompt)) \<noteq> None
       \<and> Call_io_ReadAll \<notin> set (snd (getGeneratedResponse w prompt))
       \<and> (\<forall>b. Call_json_Unmarshal b \<notin> set (snd (getGeneratedResponse w prompt)))
       \<and> Call_json_Decode \<notin> set (snd (getGeneratedResponse w prompt))"
  using assms unfolding getGeneratedResponse_def Let_def
  by (auto simp: http_StatusOK_def split: sum.splits if_splits)

theorem C4_non_200_fails_without_reading_body_witness:
  "Call_client_Do example_request
     \<in> set (snd (getGeneratedResponse (example_world 404 \<lparr>Choices = []\<rparr>) ''hi''))
   \<and> snd (fst (getGeneratedResponse (example_world 404 \<lparr>Choices = []\<rparr>) ''hi'')) \<noteq> None
   \<and> Call_io_ReadAll
       \<notin> set (snd (getGeneratedResponse (example_world 404 \<lparr>Choices = []\<rparr>) ''hi''))
   \<and> Call_json_Unmarshal ''response-json''
       \<notin> set (snd (getGeneratedResponse (example_world 404 \<lparr>Choices = []\<rparr>) ''hi''))"
proof -
  let ?w = "example_world 404 \<lparr>Choices = []\<rparr>"
  let ?res = "\<lparr>Status = ''status-line'', StatusCode = 404,
               ResBody = Inr ''response-json''\<rparr>"
  have sent: "Call_client_Do example_request \<in> set (snd (getGeneratedResponse ?w ''hi''))"
    by (simp add: ggr_unfold example_unfold)
  have answered: "client_Do ?w example_request = Inr ?res"
    by (simp add: example_world_def)
  have status: "StatusCode ?res \<noteq> 200"
    by simp
  from C4_non_200_fails_without_reading_body [OF sent answered status] sent
  show ?thesis by blast
qed

text \<open>
  C5. If the response has status code 200 and its body is read and decoded by
  \<open>json.Unmarshal\<close> into a \<open>chatResponse\<close> with no choices, \<open>getGeneratedResponse\<close>
  returns a non-nil error.
\<close>

theorem C5_empty_choices_fail:
  assumes "Call_client_Do req \<in> set (snd (getGeneratedResponse w prompt))"
    and "client_Do w req = Inr res"
    and "StatusCode res = 200"
    and "ResBody res = Inr bodyBytes"
    and "json_Unmarshal w bodyBytes = Inr chatRes"
    and "Choices chatRes = []"
  shows "snd (fst (getGeneratedResponse w prompt)) \<noteq> None"
  using assms unfolding getGeneratedResponse_def Let_def
  by (auto simp: http_StatusOK_def io_ReadAll_def split: sum.splits if_splits)

theorem C5_empty_choices_fail_witness:
  "Call_client_Do example_request
     \<in> set (snd (getGeneratedResponse (example_world 200 \<lparr>Choices = []\<rparr>) ''hi''))
   \<and> snd (fst (getGeneratedResponse (example_world 200 \<lparr>Choices = []\<rparr>) ''hi'')) \<noteq> None"
proof -
  let ?w = "example_world 200 \<lparr>Choices = []\<rparr>"
  let ?res = "\<lparr>Status = ''status-line'', StatusCode = 200,
               ResBody = Inr ''response-json''\<rparr>"
  have sent: "Call_client_Do example_request \<in> set (snd (getGeneratedResponse ?w ''hi''))"
    by (simp add: ggr_unfold example_unfold)
  have answered: "client_Do ?w example_request = Inr ?res"
    by (simp add: example_world_def)
  have decoded: "json_Unmarshal ?w ''response-json'' = Inr \<lparr>Choices = []\<rparr>"
    by (simp add: example_world_def)
  from C5_empty_choices_fail [OF sent answered _ _ decoded] sent
  show ?thesis by simp
qed

text \<open>
  C9. Whenever \<open>getGeneratedResponse\<close> returns a non-nil error, the string it returns
  is the empty string.
\<close>

theorem C9_error_implies_empty_string:
  "snd (fst (getGeneratedResponse w prompt)) \<noteq> None
     \<longrightarrow> fst (fst (getGeneratedResponse w prompt)) = ''''"
  unfolding getGeneratedResponse_def Let_def
  by (simp split: sum.split)

theorem C9_error_implies_empty_string_witness:
  "snd (fst (getGeneratedResponse (example_world 500 \<lparr>Choices = []\<rparr>) ''hi'')) \<noteq> None
   \<and> fst (fst (getGeneratedResponse (example_world 500 \<lparr>Choices = []\<rparr>) ''hi'')) = ''''"
proof -
  have "snd (fst (getGeneratedResponse (example_world 500 \<lparr>Choices = []\<rparr>) ''hi'')) \<noteq> None"
    by (simp add: ggr_unfold example_unfold)
  with C9_error_implies_empty_string [of "example_world 500 \<lparr>Choices = []\<rparr>" "''hi''"]
  show ?thesis by blast
qed

section \<open>The request\<close>

text \<open>
  C8. For every prompt, \<open>createChatRequest\<close> puts the prompt, unchanged, as the content
  of the single message, whose role is \<open>user\<close>; the model is \<open>llama3-70b\<close>, the stream
  flag is false and the function call is \<open>none\<close>. Changing the prompt changes nothing
  but the message list.
\<close>

theorem C8_prompt_embedded_verbatim:
  "chatRequest.Messages (createChatRequest prompt)
     = [\<lparr>reqMessage.Role = ''user'', reqMessage.Content = prompt\<rparr>]
   \<and> chatRequest.Model (createChatRequest prompt) = ''llama3-70b''
   \<and> chatRequest.Stream (createChatRequest prompt) = False
   \<and> chatRequest.FunctionCall (createChatRequest prompt) = ''none''
   \<and> createChatRequest prompt
     = (createChatRequest prompt')
         \<lparr>chatRequest.Messages :=
            [\<lparr>reqMessage.Role = ''user'', reqMessage.Content = prompt\<rparr>]\<rparr>"
  by (simp add: createChatRequest_def)

section \<open>Shared facts about the runs\<close>

lemmas ggr_step_unfold = getGeneratedResponse_def Let_def http_StatusOK_def errors_New_def

lemma ggr_nil_error_iff:
  "(snd (fst (getGeneratedResponse w prompt)) = None) =
     (\<exists>jsonData req res bodyBytes chatRes.
        json_Marshal w (createChatRequest prompt) = Inr jsonData
      \<and> http_NewRequestWithContext w ''POST'' API_URL jsonData = Inr req
      \<and> os_Getenv w ''LLAMA_API_KEY'' \<noteq> ''''
      \<and> client_Do w
           (Header_Set (Header_Set req ''Content-Type'' ''application/json'')
              ''Authorization'' (''Bearer '' @ os_Getenv w ''LLAMA_API_KEY'')) = Inr res
      \<and> StatusCode res = http_StatusOK
      \<and> io_ReadAll (ResBody res) = Inr bodyBytes
      \<and> json_Unmarshal w bodyBytes = Inr chatRes
      \<and> length (Choices chatRes) \<noteq> 0)"
  unfolding getGeneratedResponse_def Let_def
  by (auto split: sum.splits)

lemma ggr_error_empty_string:
  "snd (fst (getGeneratedResponse w prompt)) \<noteq> None \<Longrightarrow>
     fst (fst (getGeneratedResponse w prompt)) = ''''"
  unfolding getGeneratedResponse_def Let_def
  by (simp split: sum.split_asm if_split_asm)

lemma ggr_error_logged:
  "snd (fst (getGeneratedResponse w prompt)) = Some e \<Longrightarrow>
     \<exists>fmt args. filter is_log (snd (getGeneratedResponse w prompt))
                  = [LogPrintf fmt (ArgErr e # args)]"
  unfolding getGeneratedResponse_def Let_def
  by (auto split: sum.splits if_splits)

lemma ggr_success_no_log:
  "snd (fst (getGeneratedResponse w prompt)) = None \<Longrightarrow>
     filter is_log (snd (getGeneratedResponse w prompt)) = []"
  unfolding getGeneratedResponse_def Let_def
  by (auto split: sum.splits if_splits)

lemma ggr_one_Do:
  "length (filter is_client_Do (snd (getGeneratedResponse w prompt))) \<le> 1"
  unfolding getGeneratedResponse_def Let_def
  by (auto split: sum.splits)

lemma sent_request_shape:
  "\<forall>req. Call_client_Do req \<in> set (snd (getGeneratedResponse w prompt)) \<longrightarrow>
         Method req = ''POST''
       \<and> URL req = API_URL
       \<and> json_Marshal w (createChatRequest prompt) = Inr (ReqBody req)
       \<and> os_Getenv w ''LLAMA_API_KEY'' \<noteq> ''''
       \<and> Header req ''Authorization'' = Some [''Bearer '' @ os_Getenv w ''LLAMA_API_KEY'']
       \<and> Header req ''Content-Type'' = Some [''application/json'']"
  unfolding getGeneratedResponse_def Let_def
  by (auto simp: http_NewRequestWithContext_def Header_Set_def split: sum.splits option.splits)

lemma main_failure:
  "snd (fst (getGeneratedResponse w main_prompt)) = Some e \<Longrightarrow>
   main w =
     ([Println '''', Println '''', Println ''++++++ Prompt ++++++'', Println main_prompt,
       Println '''', Println '''', Println ''++++++ Generated response ++++++'']
      @ snd (getGeneratedResponse w main_prompt)
      @ [LogFatalf ''Failed to get generated response from Llama API: %v'' [ArgErr e]], 1)"
  by (simp add: main_def Let_def case_prod_beta)

lemma main_success:
  "snd (fst (getGeneratedResponse w main_prompt)) = None \<Longrightarrow>
   main w =
     ([Println '''', Println '''', Println ''++++++ Prompt ++++++'', Println main_prompt,
       Println '''', Println '''', Println ''++++++ Generated response ++++++'']
      @ snd (getGeneratedResponse w main_prompt)
      @ [Println (fst (fst (getGeneratedResponse w main_prompt))),
         Println '''', Println ''''], 0)"
  by (simp add: main_def Let_def case_prod_beta)

lemma main_one_Do: "length (filter is_client_Do (fst (main w))) \<le> 1"
proof (cases "snd (fst (getGeneratedResponse w main_prompt))")
  case None
  from main_success [OF None] ggr_one_Do [of w main_prompt] show ?thesis by simp
next
  case (Some e)
  from main_failure [OF Some] ggr_one_Do [of w main_prompt] show ?thesis by simp
qed

lemma inj_Call_client_Do: "inj Call_client_Do"
  by (rule injI) simp

section \<open>Uniform failure handling\<close>

text \<open>
  C6. The steps of \<open>getGeneratedResponse\<close> are: serialization, request construction,
  reading the API key, the network exchange, the status check, reading the body,
  deserialization and the check for an empty choice list.
  \<^item> For each of the eight steps: if the steps before it succeed and it fails, the
    function returns the empty string and the error of that very step (the error the
    library call returned, or the error made with \<open>errors.New\<close> for that check), and
    the one message it logs has the format of that step and this error as its first
    argument. Nothing is done after the log call but the deferred \<open>Close\<close>.
  \<^item> The function returns a nil error exactly when all eight steps succeed; so it
    returns a non-nil error exactly when one of them fails.
  \<^item> Whichever step fails, the function returns the empty string, logs exactly one
    message, whose first argument is the error it returns, and has called \<open>client.Do\<close>
    at most once.
  \<^item> Whichever step fails, \<open>main\<close> handles the error in the same way: it logs it with
    \<open>log.Fatalf\<close> under one fixed format, which is the last event of the run, and the
    process ends with exit status 1; no second call of \<open>client.Do\<close> is made.
  \<^item> Without a failure the process ends with status 0 and logs nothing.
\<close>

theorem C6_every_failure_logged_and_fatal:
  "(\<forall>err.
      json_Marshal w (createChatRequest prompt) = Inl err
      \<longrightarrow> getGeneratedResponse w prompt =
          (('''', Some err),
           [Call_json_Marshal (chatRequest_json (createChatRequest prompt)),
            LogPrintf ''Failed to Marshal: %v'' [ArgErr err]]))
   \<and> (\<forall>jsonData err.
      json_Marshal w (createChatRequest prompt) = Inr jsonData
      \<and> http_NewRequestWithContext w ''POST'' API_URL jsonData = Inl err
      \<longrightarrow> getGeneratedResponse w prompt =
          (('''', Some err),
           [Call_json_Marshal (chatRequest_json (createChatRequest prompt)),
            Call_http_NewRequest ''POST'' API_URL jsonData,
            LogPrintf ''Failed to create http request struct: %v'' [ArgErr err]]))
   \<and> (\<forall>jsonData req.
      json_Marshal w (createChatRequest prompt) = Inr jsonData
      \<and> http_NewRequestWithContext w ''POST'' API_URL jsonData = Inr req
      \<and> os_Getenv w ''LLAMA_API_KEY'' = ''''
      \<longrightarrow> getGeneratedResponse w prompt =
          (('''', Some (Error ''LLAMA_API_KEY environment variable is not set'')),
           [Call_json_Marshal (chatRequest_json (createChatRequest prompt)),
            Call_http_NewRequest ''POST'' API_URL jsonData,
            Call_os_Getenv ''LLAMA_API_KEY'',
            LogPrintf ''Failed to get API KEY: %v''
              [ArgErr (Error ''LLAMA_API_KEY environment variable is not set'')]]))
   \<and> (\<forall>jsonData req err.
      json_Marshal w (createChatRequest prompt) = Inr jsonData
      \<and> http_NewRequestWithContext w ''POST'' API_URL jsonData = Inr req
      \<and> os_Getenv w ''LLAMA_API_KEY'' \<noteq> ''''
      \<and> client_Do w
           (Header_Set (Header_Set req ''Content-Type'' ''application/json'')
              ''Authorization'' (''Bearer '' @ os_Getenv w ''LLAMA_API_KEY'')) = Inl err
      \<longrightarrow> getGeneratedResponse w prompt =
          (('''', Some err),
           [Call_json_Marshal (chatRequest_json (createChatRequest prompt)),
            Call_http_NewRequest ''POST'' API_URL jsonData,
            Call_os_Getenv ''LLAMA_API_KEY'',
            Call_client_Do
              (Header_Set (Header_Set req ''Content-Type'' ''application/json'')
                 ''Authorization'' (''Bearer '' @ os_Getenv w ''LLAMA_API_KEY'')),
            LogPrintf ''Failed to get http response: %v'' [ArgErr err]]))
   \<and> (\<forall>jsonData req res.
      json_Marshal w (createChatRequest prompt) = Inr jsonData
      \<and> http_NewRequestWithContext w ''POST'' API_URL jsonData = Inr req
      \<and> os_Getenv w ''LLAMA_API_KEY'' \<noteq> ''''
      \<and> client_Do w
           (Header_Set (Header_Set req ''Content-Type'' ''application/json'')
              ''Authorization'' (''Bearer '' @ os_Getenv w ''LLAMA_API_KEY'')) = Inr res
      \<and> StatusCode res \<noteq> 200
      \<longrightarrow> getGeneratedResponse w prompt =
          (('''', Some (Error ''Unexpected status code'')),
           [Call_json_Marshal (chatRequest_json (createChatRequest prompt)),
            Call_http_NewRequest ''POST'' API_URL jsonData,
            Call_os_Getenv ''LLAMA_API_KEY'',
            Call_client_Do
              (Header_Set (Header_Set req ''Content-Type'' ''application/json'')
                 ''Authorization'' (''Bearer '' @ os_Getenv w ''LLAMA_API_KEY'')),
            LogPrintf ''Failed to get expected status code: %v :%d''
              [ArgErr (Error ''Unexpected status code''), ArgInt (StatusCode res)]]))
   \<and> (\<forall>jsonData req res err.
      json_Marshal w (createChatRequest prompt) = Inr jsonData
      \<and> http_NewRequestWithContext w ''POST'' API_URL jsonData = Inr req
      \<and> os_Getenv w ''LLAMA_API_KEY'' \<noteq> ''''
      \<and> client_Do w
           (Header_Set (Header_Set req ''Content-Type'' ''application/json'')
              ''Authorization'' (''Bearer '' @ os_Getenv w ''LLAMA_API_KEY'')) = Inr res
      \<and> StatusCode res = 200
      \<and> io_ReadAll (ResBody res) = Inl err
      \<longrightarrow> getGeneratedResponse w prompt =
          (('''', Some err),
           [Call_json_Marshal (chatRequest_json (createChatRequest prompt)),
            Call_http_NewRequest ''POST'' API_URL jsonData,
            Call_os_Getenv ''LLAMA_API_KEY'',
            Call_client_Do
              (Header_Set (Header_Set req ''Content-Type'' ''application/json'')
                 ''Authorization'' (''Bearer '' @ os_Getenv w ''LLAMA_API_KEY'')),
            Call_io_ReadAll,
            LogPrintf ''Failed to read body: %v'' [ArgErr err],
            Call_Body_Close]))
   \<and> (\<forall>jsonData req res bodyBytes err.
      json_Marshal w (createChatRequest prompt) = Inr jsonData
      \<and> http_NewRequestWithContext w ''POST'' API_URL jsonData = Inr req
      \<and> os_Getenv w ''LLAMA_API_KEY'' \<noteq> ''''
      \<and> client_Do w
           (Header_Set (Header_Set req ''Content-Type'' ''application/json'')
              ''Authorization'' (''Bearer '' @ os_Getenv w ''LLAMA_API_KEY'')) = Inr res
      \<and> StatusCode res = 200
      \<and> io_ReadAll (ResBody res) = Inr bodyBytes
      \<and> json_Unmarshal w bodyBytes = Inl err
      \<longrightarrow> getGeneratedResponse w prompt =
          (('''', Some err),
           [Call_json_Marshal (chatRequest_json (createChatRequest prompt)),
            Call_http_NewRequest ''POST'' API_URL jsonData,
            Call_os_Getenv ''LLAMA_API_KEY'',
            Call_client_Do
              (Header_Set (Header_Set req ''Content-Type'' ''application/json'')
                 ''Authorization'' (''Bearer '' @ os_Getenv w ''LLAMA_API_KEY'')),
            Call_io_ReadAll,
            Call_json_Unmarshal bodyBytes,
            LogPrintf ''Failed to unmarshal: %v'' [ArgErr err],
            Call_Body_Close]))
   \<and> (\<forall>jsonData req res bodyBytes chatRes.
      json_Marshal w (createChatRequest prompt) = Inr jsonData
      \<and> http_NewRequestWithContext w ''POST'' API_URL jsonData = Inr req
      \<and> os_Getenv w ''LLAMA_API_KEY'' \<noteq> ''''
      \<and> client_Do w
           (Header_Set (Header_Set req ''Content-Type'' ''application/json'')
              ''Authorization'' (''Bearer '' @ os_Getenv w ''LLAMA_API_KEY'')) = Inr res
      \<and> StatusCode res = 200
      \<and> io_ReadAll (ResBody res) = Inr bodyBytes
      \<and> json_Unmarshal w bodyBytes = Inr chatRes
      \<and> Choices chatRes = []
      \<longrightarrow> getGeneratedResponse w prompt =
          (('''', Some (Error ''No choices returned from llama'')),
           [Call_json_Marshal (chatRequest_json (createChatRequest prompt)),
            Call_http_NewRequest ''POST'' API_URL jsonData,
            Call_os_Getenv ''LLAMA_API_KEY'',
            Call_client_Do
              (Header_Set (Header_Set req ''Content-Type'' ''application/json'')
                 ''Authorization'' (''Bearer '' @ os_Getenv w ''LLAMA_API_KEY'')),
            Call_io_ReadAll,
            Call_json_Unmarshal bodyBytes,
            LogPrintf ''Failed to get expected length of choices: %v''
              [ArgErr (Error ''No choices returned from llama'')],
            Call_Body_Close]))
   \<and> ((snd (fst (getGeneratedResponse w prompt)) = None) =
     (\<exists>jsonData req res bodyBytes chatRes.
        json_Marshal w (createChatRequest prompt) = Inr jsonData
      \<and> http_NewRequestWithContext w ''POST'' API_URL jsonData = Inr req
      \<and> os_Getenv w ''LLAMA_API_KEY'' \<noteq> ''''
      \<and> client_Do w
           (Header_Set (Header_Set req ''Content-Type'' ''application/json'')
              ''Authorization'' (''Bearer '' @ os_Getenv w ''LLAMA_API_KEY'')) = Inr res
      \<and> StatusCode res = http_StatusOK
      \<and> io_ReadAll (ResBody res) = Inr bodyBytes
      \<and> json_Unmarshal w bodyBytes = Inr chatRes
      \<and> length (Choices chatRes) \<noteq> 0))
   \<and> (\<forall>e. snd (fst (getGeneratedResponse w prompt)) = Some e \<longrightarrow>
          fst (fst (getGeneratedResponse w prompt)) = ''''
        \<and> (\<exists>fmt args. filter is_log (snd (getGeneratedResponse w prompt))
                          = [LogPrintf fmt (ArgErr e # args)])
        \<and> length (filter is_client_Do (snd (getGeneratedResponse w prompt))) \<le> 1)
   \<and> (\<forall>e. snd (fst (getGeneratedResponse w main_prompt)) = Some e \<longrightarrow>
          snd (main w) = 1
        \<and> last (fst (main w))
            = LogFatalf ''Failed to get generated response from Llama API: %v'' [ArgErr e]
        \<and> (\<exists>fmt args. filter is_log (fst (main w))
              = [LogPrintf fmt (ArgErr e # args),
                 LogFatalf ''Failed to get generated response from Llama API: %v'' [ArgErr e]])
        \<and> length (filter is_client_Do (fst (main w))) \<le> 1)
   \<and> (snd (fst (getGeneratedResponse w main_prompt)) = None \<longrightarrow>
          snd (main w) = 0 \<and> filter is_log (fst (main w)) = [])"
  apply (intro conjI allI impI)
  subgoal by (simp add: ggr_step_unfold)
  subgoal by (simp add: ggr_step_unfold)
  subgoal by (simp add: ggr_step_unfold)
  subgoal by (simp add: ggr_step_unfold)
  subgoal by (simp add: ggr_step_unfold)
  subgoal by (simp add: ggr_step_unfold)
  subgoal by (simp add: ggr_step_unfold)
  subgoal by (simp add: ggr_step_unfold)
  subgoal by (rule ggr_nil_error_iff)
  subgoal by (simp add: ggr_error_empty_string)
  subgoal by (rule ggr_error_logged)
  subgoal by (rule ggr_one_Do)
  subgoal by (simp add: main_failure)
  subgoal by (simp add: main_failure)
  subgoal for e using ggr_error_logged [of w main_prompt e] by (auto simp: main_failure)
  subgoal by (rule main_one_Do)
  subgoal by (simp add: main_success)
  subgoal using ggr_success_no_log [of w main_prompt] by (simp add: main_success)
  done

theorem C6_every_failure_logged_and_fatal_witness:
  "getGeneratedResponse example_world_no_network main_prompt =
     (('''', Some (Error ''dial tcp: timeout'')),
      [Call_json_Marshal (chatRequest_json (createChatRequest main_prompt)),
       Call_http_NewRequest ''POST'' API_URL ''request-json'',
       Call_os_Getenv ''LLAMA_API_KEY'',
       Call_client_Do example_request,
       LogPrintf ''Failed to get http response: %v'' [ArgErr (Error ''dial tcp: timeout'')]])
   \<and> snd (main example_world_no_network) = 1
   \<and> last (fst (main example_world_no_network))
       = LogFatalf ''Failed to get generated response from Llama API: %v''
           [ArgErr (Error ''dial tcp: timeout'')]
   \<and> getGeneratedResponse (example_world 500 \<lparr>Choices = []\<rparr>) main_prompt =
     (('''', Some (Error ''Unexpected status code'')),
      [Call_json_Marshal (chatRequest_json (createChatRequest main_prompt)),
       Call_http_NewRequest ''POST'' API_URL ''request-json'',
       Call_os_Getenv ''LLAMA_API_KEY'',
       Call_client_Do example_request,
       LogPrintf ''Failed to get expected status code: %v :%d''
         [ArgErr (Error ''Unexpected status code''), ArgInt 500]])
   \<and> snd (main (example_world 500 \<lparr>Choices = []\<rparr>)) = 1
   \<and> last (fst (main (example_world 500 \<lparr>Choices = []\<rparr>)))
       = LogFatalf ''Failed to get generated response from Llama API: %v''
           [ArgErr (Error ''Unexpected status code'')]"
proof -
  let ?n = example_world_no_network
  let ?w = "example_world 500 \<lparr>Choices = []\<rparr>"
  let ?req = "\<lparr>Method = ''POST'', URL = API_URL, Header = Map.empty,
               ReqBody = ''request-json''\<rparr>"
  let ?res = "\<lparr>Status = ''status-line'', StatusCode = 500,
               ResBody = Inr ''response-json''\<rparr>"
  have n_steps: "json_Marshal ?n (createChatRequest main_prompt) = Inr ''request-json''
      \<and> http_NewRequestWithContext ?n ''POST'' API_URL ''request-json'' = Inr ?req
      \<and> os_Getenv ?n ''LLAMA_API_KEY'' \<noteq> ''''
      \<and> client_Do ?n
           (Header_Set (Header_Set ?req ''Content-Type'' ''application/json'')
              ''Authorization'' (''Bearer '' @ os_Getenv ?n ''LLAMA_API_KEY''))
          = Inl (Error ''dial tcp: timeout'')"
    by (simp add: json_Marshal_def http_NewRequestWithContext_def os_Getenv_def
        example_world_no_network_def example_world_def)
  have n_key: "os_Getenv ?n ''LLAMA_API_KEY'' = ''secret''"
    by (simp add: os_Getenv_def example_world_no_network_def example_world_def)
  have w_steps: "json_Marshal ?w (createChatRequest main_prompt) = Inr ''request-json''
      \<and> http_NewRequestWithContext ?w ''POST'' API_URL ''request-json'' = Inr ?req
      \<and> os_Getenv ?w ''LLAMA_API_KEY'' \<noteq> ''''
      \<and> client_Do ?w
           (Header_Set (Header_Set ?req ''Content-Type'' ''application/json'')
              ''Authorization'' (''Bearer '' @ os_Getenv ?w ''LLAMA_API_KEY''))
          = Inr ?res
      \<and> StatusCode ?res \<noteq> 200"
    by (simp add: json_Marshal_def http_NewRequestWithContext_def os_Getenv_def
        example_world_def)
  have w_key: "os_Getenv ?w ''LLAMA_API_KEY'' = ''secret''"
    by (simp add: os_Getenv_def example_world_def)
  note n_all = C6_every_failure_logged_and_fatal [of ?n main_prompt]
  note w_all = C6_every_failure_logged_and_fatal [of ?w main_prompt]
  note n_fourth = n_all [THEN conjunct2, THEN conjunct2, THEN conjunct2, THEN conjunct1,
      rule_format, OF n_steps]
  note w_fifth = w_all [THEN conjunct2, THEN conjunct2, THEN conjunct2, THEN conjunct2,
      THEN conjunct1, rule_format, OF w_steps]
  from n_fourth
  have n_run: "getGeneratedResponse ?n main_prompt =
     (('''', Some (Error ''dial tcp: timeout'')),
      [Call_json_Marshal (chatRequest_json (createChatRequest main_prompt)),
       Call_http_NewRequest ''POST'' API_URL ''request-json'',
       Call_os_Getenv ''LLAMA_API_KEY'',
       Call_client_Do
         (Header_Set (Header_Set ?req ''Content-Type'' ''application/json'')
            ''Authorization'' (''Bearer '' @ os_Getenv ?n ''LLAMA_API_KEY'')),
       LogPrintf ''Failed to get http response: %v'' [ArgErr (Error ''dial tcp: timeout'')]])"
    by simp
  from w_fifth
  have w_run: "getGeneratedResponse ?w main_prompt =
     (('''', Some (Error ''Unexpected status code'')),
      [Call_json_Marshal (chatRequest_json (createChatRequest main_prompt)),
       Call_http_NewRequest ''POST'' API_URL ''request-json'',
       Call_os_Getenv ''LLAMA_API_KEY'',
       Call_client_Do
         (Header_Set (Header_Set ?req ''Content-Type'' ''application/json'')
            ''Authorization'' (''Bearer '' @ os_Getenv ?w ''LLAMA_API_KEY'')),
       LogPrintf ''Failed to get expected status code: %v :%d''
         [ArgErr (Error ''Unexpected status code''), ArgInt (StatusCode ?res)]])"
    by simp
  from n_run have n_err: "snd (fst (getGeneratedResponse ?n main_prompt))
      = Some (Error ''dial tcp: timeout'')"
    by simp
  from w_run have w_err: "snd (fst (getGeneratedResponse ?w main_prompt))
      = Some (Error ''Unexpected status code'')"
    by simp
  from n_all [THEN conjunct2, THEN conjunct2, THEN conjunct2, THEN conjunct2,
      THEN conjunct2, THEN conjunct2, THEN conjunct2, THEN conjunct2, THEN conjunct2,
      THEN conjunct2, THEN conjunct1, rule_format, OF n_err]
  have n_main: "snd (main ?n) = 1 \<and> last (fst (main ?n))
       = LogFatalf ''Failed to get generated response from Llama API: %v''
           [ArgErr (Error ''dial tcp: timeout'')]"
    by blast
  from w_all [THEN conjunct2, THEN conjunct2, THEN conjunct2, THEN conjunct2,
      THEN conjunct2, THEN conjunct2, THEN conjunct2, THEN conjunct2, THEN conjunct2,
      THEN conjunct2, THEN conjunct1, rule_format, OF w_err]
  have w_main: "snd (main ?w) = 1 \<and> last (fst (main ?w))
       = LogFatalf ''Failed to get generated response from Llama API: %v''
           [ArgErr (Error ''Unexpected status code'')]"
    by blast
  from n_run w_run n_main w_main show ?thesis
    by (simp add: n_key w_key Header_Set_def example_request_def)
qed

section \<open>A single call of client.Do\<close>

lemma outbound_without_redirects:
  "(\<forall>req. redirects w req = []) \<Longrightarrow>
     map Call_client_Do (outbound_requests w t) = filter is_client_Do t"
proof (induction t)
  case Nil
  show ?case by (simp add: outbound_requests_def)
next
  case (Cons e t)
  then have "map Call_client_Do (outbound_requests w t) = filter is_client_Do t"
    by simp
  with Cons.prems show ?case
    by (cases e) (simp_all add: outbound_requests_def)
qed

text \<open>
  C7, as stated, does not hold. The claim bounds the HTTP requests that leave the
  process. \<open>getGeneratedResponse\<close> calls \<open>client.Do\<close> once, but the zero-value
  \<open>http.Client\<close> follows redirects inside that call: in the world below the server
  answers the POST with a 307 redirect, and two requests go out, the second one to a
  URL other than \<open>API_URL\<close>; the function still returns the generated text.
\<close>

theorem C7_redirect_counterexample:
  "length (outbound_requests redirect_world
             (snd (getGeneratedResponse redirect_world ''hi''))) = 2
   \<and> \<not> length (outbound_requests redirect_world
                  (snd (getGeneratedResponse redirect_world ''hi''))) \<le> 1
   \<and> map Method (outbound_requests redirect_world
                    (snd (getGeneratedResponse redirect_world ''hi'')))
       = [''POST'', ''POST'']
   \<and> map URL (outbound_requests redirect_world
                 (snd (getGeneratedResponse redirect_world ''hi'')))
       = [''https://api.llama-api.com/chat/completions'',
          ''https://api.llama-api.com/v2/chat/completions'']
   \<and> filter is_client_Do (snd (getGeneratedResponse redirect_world ''hi''))
       = [Call_client_Do example_request]
   \<and> fst (getGeneratedResponse redirect_world ''hi'') = (''Hello'', None)"
  by (simp add: ggr_unfold example_unfold outbound_requests_def)

text \<open>
  C7, amended. In every run \<open>getGeneratedResponse\<close> calls \<open>client.Do\<close> at most once,
  and so does the whole of \<open>main\<close>: there is no retry. The request handed to
  \<open>client.Do\<close> has method \<open>POST\<close>, the URL \<open>API_URL\<close>, the marshalled request as its
  body, and the header \<open>Authorization\<close> set to \<open>Bearer\<close>, a space, and the (non-empty)
  API key. If \<open>client.Do\<close> follows no redirect, the requests that leave the process are
  exactly the requests of these calls, hence at most one.
\<close>

theorem C7_single_client_Do_call:
  "length (filter is_client_Do (snd (getGeneratedResponse w prompt))) \<le> 1
   \<and> length (filter is_client_Do (fst (main w))) \<le> 1
   \<and> (\<forall>req. Call_client_Do req \<in> set (snd (getGeneratedResponse w prompt)) \<longrightarrow>
         Method req = ''POST''
       \<and> URL req = API_URL
       \<and> json_Marshal w (createChatRequest prompt) = Inr (ReqBody req)
       \<and> os_Getenv w ''LLAMA_API_KEY'' \<noteq> ''''
       \<and> Header req ''Authorization'' = Some [''Bearer '' @ os_Getenv w ''LLAMA_API_KEY'']
       \<and> Header req ''Content-Type'' = Some [''application/json''])
   \<and> ((\<forall>req. redirects w req = []) \<longrightarrow>
         map Call_client_Do (outbound_requests w (snd (getGeneratedResponse w prompt)))
           = filter is_client_Do (snd (getGeneratedResponse w prompt))
       \<and> length (outbound_requests w (snd (getGeneratedResponse w prompt))) \<le> 1)"
proof -
  have "length (outbound_requests w (snd (getGeneratedResponse w prompt))) \<le> 1"
    if "\<forall>req. redirects w req = []"
  proof -
    have "length (outbound_requests w (snd (getGeneratedResponse w prompt)))
            = length (map Call_client_Do
                (outbound_requests w (snd (getGeneratedResponse w prompt))))"
      by simp
    also have "\<dots> = length (filter is_client_Do (snd (getGeneratedResponse w prompt)))"
      by (simp only: outbound_without_redirects [OF that])
    also have "\<dots> \<le> 1"
      by (rule ggr_one_Do)
    finally show ?thesis .
  qed
  with ggr_one_Do [of w prompt] main_one_Do [of w] sent_request_shape [of w prompt]
    outbound_without_redirects [of w "snd (getGeneratedResponse w prompt)"]
  show ?thesis by blast
qed

theorem C7_single_client_Do_call_witness:
  "filter is_client_Do
     (snd (getGeneratedResponse (example_world 200 \<lparr>Choices = []\<rparr>) ''hi''))
     = [Call_client_Do example_request]
   \<and> Method example_request = ''POST''
   \<and> URL example_request = ''https://api.llama-api.com/chat/completions''
   \<and> ReqBody example_request = ''request-json''
   \<and> json_Marshal (example_world 200 \<lparr>Choices = []\<rparr>) (createChatRequest ''hi'')
       = Inr ''request-json''
   \<and> Header example_request ''Authorization'' = Some [''Bearer secret'']
   \<and> outbound_requests (example_world 200 \<lparr>Choices = []\<rparr>)
        (snd (getGeneratedResponse (example_world 200 \<lparr>Choices = []\<rparr>) ''hi''))
       = [example_request]"
proof -
  let ?w = "example_world 200 \<lparr>Choices = []\<rparr>"
  have sent: "filter is_client_Do (snd (getGeneratedResponse ?w ''hi''))
                = [Call_client_Do example_request]"
    by (simp add: ggr_unfold example_unfold)
  have "Call_client_Do example_request
          \<in> set (filter is_client_Do (snd (getGeneratedResponse ?w ''hi'')))"
    unfolding sent by simp
  then have mem: "Call_client_Do example_request \<in> set (snd (getGeneratedResponse ?w ''hi''))"
    by simp
  have direct: "\<forall>req. redirects ?w req = []"
    by (simp add: example_world_def)
  note all = C7_single_client_Do_call [of ?w "''hi''"]
  from all [THEN conjunct2, THEN conjunct2, THEN conjunct1, rule_format, OF mem]
  have shape: "Method example_request = ''POST''
      \<and> URL example_request = API_URL
      \<and> json_Marshal ?w (createChatRequest ''hi'') = Inr (ReqBody example_request)
      \<and> Header example_request ''Authorization''
          = Some [''Bearer '' @ os_Getenv ?w ''LLAMA_API_KEY'']"
    by simp
  from all [THEN conjunct2, THEN conjunct2, THEN conjunct2, THEN mp, OF direct]
  have "map Call_client_Do (outbound_requests ?w (snd (getGeneratedResponse ?w ''hi'')))
          = filter is_client_Do (snd (getGeneratedResponse ?w ''hi''))"
    by simp
  with sent have "map Call_client_Do (outbound_requests ?w (snd (getGeneratedResponse ?w ''hi'')))
          = map Call_client_Do [example_request]"
    by simp
  then have out: "outbound_requests ?w (snd (getGeneratedResponse ?w ''hi'')) = [example_request]"
    by (simp only: inj_map_eq_map [OF inj_Call_client_Do])
  from sent shape out show ?thesis
    by (simp add: example_unfold os_Getenv_def)
qed

section \<open>The two variants\<close>

lemma createChatRequest_part_001_eq:
  "createChatRequest_part_001 prompt = createChatRequest prompt"
  by (simp add: createChatRequest_part_001_def createChatRequest_def)

lemma variants_same_Do:
  "filter is_client_Do (snd (getGeneratedResponse_part_001 w prompt))
     = filter is_client_Do (snd (getGeneratedResponse w prompt))"
  unfolding getGeneratedResponse_part_001_def getGeneratedResponse_def Let_def
    createChatRequest_part_001_eq
  by (simp split: sum.split)

lemma variants_same_NewRequest:
  "Call_http_NewRequest m u b \<in> set (snd (getGeneratedResponse_part_001 w prompt))
     \<longleftrightarrow> Call_http_NewRequest m u b \<in> set (snd (getGeneratedResponse w prompt))"
  unfolding getGeneratedResponse_part_001_def getGeneratedResponse_def Let_def
    createChatRequest_part_001_eq
  by (simp split: sum.split)

lemma variants_success:
  assumes "json_Marshal w (createChatRequest prompt) = Inr jsonData"
    and "http_NewRequestWithContext w ''POST'' API_URL jsonData = Inr req"
    and "os_Getenv w ''LLAMA_API_KEY'' \<noteq> ''''"
    and "client_Do w
           (Header_Set (Header_Set req ''Content-Type'' ''application/json'')
              ''Authorization'' (''Bearer '' @ os_Getenv w ''LLAMA_API_KEY'')) = Inr res"
    and "StatusCode res = 200"
    and "io_ReadAll (ResBody res) = Inr bodyBytes"
    and "json_Unmarshal w bodyBytes = Inr chatRes"
    and "json_Decode w (ResBody res) = Inr chatRes"
    and "Choices chatRes \<noteq> []"
  shows "fst (getGeneratedResponse w prompt)
           = (resMessage.Content (Message (hd (Choices chatRes))), None)"
    and "fst (getGeneratedResponse_part_001 w prompt)
           = Return (resMessage.Content (Message (hd (Choices chatRes))))"
    and "filter is_client_Do (snd (getGeneratedResponse w prompt))
           = [Call_client_Do
                (Header_Set (Header_Set req ''Content-Type'' ''application/json'')
                   ''Authorization'' (''Bearer '' @ os_Getenv w ''LLAMA_API_KEY''))]"
    and "ReqBody (Header_Set (Header_Set req ''Content-Type'' ''application/json'')
                   ''Authorization'' (''Bearer '' @ os_Getenv w ''LLAMA_API_KEY''))
           = jsonData"
proof -
  from assms show "fst (getGeneratedResponse w prompt)
           = (resMessage.Content (Message (hd (Choices chatRes))), None)"
    unfolding getGeneratedResponse_def Let_def
    by (simp add: http_StatusOK_def hd_conv_nth)
  from assms show "fst (getGeneratedResponse_part_001 w prompt)
           = Return (resMessage.Content (Message (hd (Choices chatRes))))"
    unfolding getGeneratedResponse_part_001_def Let_def createChatRequest_part_001_eq
    by (simp add: http_StatusOK_def hd_conv_nth)
  from assms show "filter is_client_Do (snd (getGeneratedResponse w prompt))
           = [Call_client_Do
                (Header_Set (Header_Set req ''Content-Type'' ''application/json'')
                   ''Authorization'' (''Bearer '' @ os_Getenv w ''LLAMA_API_KEY''))]"
    unfolding getGeneratedResponse_def Let_def
    by (simp add: http_StatusOK_def)
  from assms(2) show "ReqBody (Header_Set (Header_Set req ''Content-Type'' ''application/json'')
                   ''Authorization'' (''Bearer '' @ os_Getenv w ''LLAMA_API_KEY''))
           = jsonData"
    by (auto simp: http_NewRequestWithContext_def Header_Set_def split: option.splits)
qed

text \<open>
  C10, as stated, does not hold. The variants decode the body differently: src/main.go
  reads the whole body and calls \<open>json.Unmarshal\<close>, part_001 decodes from the stream.
  In the world below the key is set, the response has status 200 and its body holds
  a JSON value with one choice followed by more text. The stream decoder decodes the
  value, and part_001 returns the content of the first choice; \<open>json.Unmarshal\<close>
  rejects the body, and src/main.go returns the empty string and an error.
\<close>

theorem C10_trailing_data_counterexample:
  "os_Getenv trailing_data_world ''LLAMA_API_KEY'' = ''secret''
   \<and> client_Do trailing_data_world example_request
       = Inr \<lparr>Status = ''200 OK'', StatusCode = 200, ResBody = Inr trailing_body\<rparr>
   \<and> json_Decode trailing_data_world (Inr trailing_body)
       = Inr \<lparr>Choices = [example_choice 0 ''Hello'']\<rparr>
   \<and> filter is_client_Do (snd (getGeneratedResponse trailing_data_world ''hi''))
       = [Call_client_Do example_request]
   \<and> filter is_client_Do (snd (getGeneratedResponse_part_001 trailing_data_world ''hi''))
       = [Call_client_Do example_request]
   \<and> fst (getGeneratedResponse_part_001 trailing_data_world ''hi'') = Return ''Hello''
   \<and> fst (getGeneratedResponse trailing_data_world ''hi'')
       = ('''', Some (Error ''invalid character 't' after top-level value''))"
  by (simp add: ggr_unfold getGeneratedResponse_part_001_def example_unfold
      createChatRequest_part_001_eq)

text \<open>
  C10, amended. \<open>createChatRequest\<close> is the same function in both files, and in every
  world the two variants make the same calls of \<open>http.NewRequestWithContext\<close> (which
  carry the marshalled body) and of \<open>client.Do\<close>. Suppose serialization and request
  construction succeed, the key is not empty, and the response has status code 200
  and a body that is read in full and that both \<open>json.Unmarshal\<close> (src/main.go) and
  the stream decoder (part_001) decode to the same \<open>chatResponse\<close> with at least one
  choice. Then both variants send the one request whose body is the marshalled
  request and return the message content of the first choice: src/main.go with a
  nil error, part_001 as its only result.
\<close>

theorem C10_variants_agree_on_success:
  "createChatRequest_part_001 prompt = createChatRequest prompt
   \<and> filter is_client_Do (snd (getGeneratedResponse_part_001 w prompt))
       = filter is_client_Do (snd (getGeneratedResponse w prompt))
   \<and> (\<forall>m u b.
         Call_http_NewRequest m u b \<in> set (snd (getGeneratedResponse_part_001 w prompt))
         \<longleftrightarrow> Call_http_NewRequest m u b \<in> set (snd (getGeneratedResponse w prompt)))
   \<and> (\<forall>jsonData req res bodyBytes chatRes.
         json_Marshal w (createChatRequest prompt) = Inr jsonData
       \<and> http_NewRequestWithContext w ''POST'' API_URL jsonData = Inr req
       \<and> os_Getenv w ''LLAMA_API_KEY'' \<noteq> ''''
       \<and> client_Do w
            (Header_Set (Header_Set req ''Content-Type'' ''application/json'')
               ''Authorization'' (''Bearer '' @ os_Getenv w ''LLAMA_API_KEY'')) = Inr res
       \<and> StatusCode res = 200
       \<and> io_ReadAll (ResBody res) = Inr bodyBytes
       \<and> json_Unmarshal w bodyBytes = Inr chatRes
       \<and> json_Decode w (ResBody res) = Inr chatRes
       \<and> Choices chatRes \<noteq> []
       \<longrightarrow> fst (getGeneratedResponse w prompt)
             = (resMessage.Content (Message (hd (Choices chatRes))), None)
         \<and> fst (getGeneratedResponse_part_001 w prompt)
             = Return (resMessage.Content (Message (hd (Choices chatRes))))
         \<and> filter is_client_Do (snd (getGeneratedResponse w prompt))
             = [Call_client_Do
                  (Header_Set (Header_Set req ''Content-Type'' ''application/json'')
                     ''Authorization'' (''Bearer '' @ os_Getenv w ''LLAMA_API_KEY''))]
         \<and> ReqBody (Header_Set (Header_Set req ''Content-Type'' ''application/json'')
                     ''Authorization'' (''Bearer '' @ os_Getenv w ''LLAMA_API_KEY''))
             = jsonData)"
  apply (intro conjI allI impI)
  subgoal by (rule createChatRequest_part_001_eq)
  subgoal by (rule variants_same_Do)
  subgoal by (rule variants_same_NewRequest)
  subgoal by (elim conjE) (rule variants_success(1); assumption)
  subgoal by (elim conjE) (rule variants_success(2); assumption)
  subgoal by (elim conjE) (rule variants_success(3); assumption)
  subgoal by (elim conjE) (rule variants_success(4); assumption)
  done

theorem C10_variants_agree_on_success_witness:
  "fst (getGeneratedResponse
         (example_world 200
            \<lparr>Choices = [example_choice 0 ''Hello'', example_choice 1 ''Bye'']\<rparr>) ''hi'')
     = (''Hello'', None)
   \<and> fst (getGeneratedResponse_part_001
         (example_world 200
            \<lparr>Choices = [example_choice 0 ''Hello'', example_choice 1 ''Bye'']\<rparr>) ''hi'')
     = Return ''Hello''
   \<and> filter is_client_Do (snd (getGeneratedResponse
         (example_world 200
            \<lparr>Choices = [example_choice 0 ''Hello'', example_choice 1 ''Bye'']\<rparr>) ''hi''))
     = [Call_client_Do example_request]
   \<and> filter is_client_Do (snd (getGeneratedResponse_part_001
         (example_world 200
            \<lparr>Choices = [example_choice 0 ''Hello'', example_choice 1 ''Bye'']\<rparr>) ''hi''))
     = [Call_client_Do example_request]"
proof -
  let ?cr = "\<lparr>Choices = [example_choice 0 ''Hello'', example_choice 1 ''Bye'']\<rparr>"
  let ?w = "example_world 200 ?cr"
  let ?req = "\<lparr>Method = ''POST'', URL = API_URL, Header = Map.empty,
               ReqBody = ''request-json''\<rparr>"
  let ?res = "\<lparr>Status = ''status-line'', StatusCode = 200,
               ResBody = Inr ''response-json''\<rparr>"
  have steps: "json_Marshal ?w (createChatRequest ''hi'') = Inr ''request-json''
      \<and> http_NewRequestWithContext ?w ''POST'' API_URL ''request-json'' = Inr ?req
      \<and> os_Getenv ?w ''LLAMA_API_KEY'' \<noteq> ''''
      \<and> client_Do ?w
           (Header_Set (Header_Set ?req ''Content-Type'' ''application/json'')
              ''Authorization'' (''Bearer '' @ os_Getenv ?w ''LLAMA_API_KEY'')) = Inr ?res
      \<and> StatusCode ?res = 200
      \<and> io_ReadAll (ResBody ?res) = Inr ''response-json''
      \<and> json_Unmarshal ?w ''response-json'' = Inr ?cr
      \<and> json_Decode ?w (ResBody ?res) = Inr ?cr
      \<and> Choices ?cr \<noteq> []"
    by (simp add: json_Marshal_def http_NewRequestWithContext_def os_Getenv_def
        io_ReadAll_def example_world_def)
  have key: "os_Getenv ?w ''LLAMA_API_KEY'' = ''secret''"
    by (simp add: os_Getenv_def example_world_def)
  have content: "resMessage.Content (Message (hd (Choices ?cr))) = ''Hello''"
    by (simp add: example_choice_def)
  have sent: "Header_Set (Header_Set ?req ''Content-Type'' ''application/json'')
                ''Authorization'' (''Bearer '' @ os_Getenv ?w ''LLAMA_API_KEY'')
              = example_request"
    by (simp add: key Header_Set_def example_request_def)
  note all = C10_variants_agree_on_success [of "''hi''" ?w]
  note same = all [THEN conjunct2, THEN conjunct1]
  note success = all [THEN conjunct2, THEN conjunct2, THEN conjunct2, rule_format,
      OF steps, unfolded content sent]
  from success same show ?thesis
    by simp
qed

end
